theory Spec2Isabelle
  imports Complex_Main
begin

section \<open>LLMstudio engine: the provider base class and the model listing\<close>

text \<open>
  A shallow embedding of \<^verbatim>\<open>llmstudio/engine/providers/provider.py\<close> (class
  \<^verbatim>\<open>Provider\<close>) and of \<^verbatim>\<open>get_models\<close> in
  \<^verbatim>\<open>llmstudio/engine/__init__.py\<close>.

  Conventions of the embedding:
  \<^item> a Python \<^verbatim>\<open>float\<close> is a \<^typ>\<open>real\<close>: rounding, overflow and the non-finite
    values (\<^verbatim>\<open>inf\<close>, \<^verbatim>\<open>nan\<close>) are not part of the model; what is modelled is which
    operations are applied to which operands and where Python raises;
  \<^item> a Python \<^verbatim>\<open>int\<close> is an \<^typ>\<open>int\<close>;
  \<^item> a \<^verbatim>\<open>dict\<close> is an association list in insertion order;
  \<^item> every \<^verbatim>\<open>raise\<close> is a value \<open>Inl e\<close> of the result type \<open>py_error + 'a\<close>.
\<close>

subsection \<open>Exceptions\<close>

text \<open>
  The exceptions the modelled code can raise: Python's built-in ones and FastAPI's
  \<^verbatim>\<open>HTTPException(status_code, detail)\<close>. The last two constructors are the two
  error names of the specification's taxonomy that have no counterpart in the code:
  no path of the model constructs them.
\<close>

datatype py_error =
    KeyError string
  | TypeError
  | AttributeError string
  | ZeroDivisionError
  | ValueError
  | HTTPException int string
  | InsufficientDataError
  | MissingCredentialsError

subsection \<open>Values of dictionaries that are returned to the caller\<close>

datatype json =
    JNull
  | JBool bool
  | JInt int
  | JNum real
  | JStr string
  | JList "json list"
  | JObj "(string \<times> json) list"

subsection \<open>Configuration (engine/__init__.py) and request (provider.py)\<close>

record ModelConfig =
  mode :: string
  max_tokens :: int
  input_token_cost :: real
  output_token_cost :: real

text \<open>
  \<^verbatim>\<open>ProviderConfig\<close>. The fields \<^verbatim>\<open>id\<close>, \<^verbatim>\<open>chat\<close> and \<^verbatim>\<open>parameters\<close> carry the
  suffix \<open>_cfg\<close> (they clash with a HOL constant, with the method \<^verbatim>\<open>Provider.chat\<close>
  and with the field of \<^verbatim>\<open>ChatRequest\<close>). An \<^verbatim>\<open>Optional\<close> field is an option.
\<close>

record ProviderConfig =
  id_cfg :: string
  name :: string
  chat_cfg :: bool
  embed :: bool
  keys :: "string list option"
  models :: "(string \<times> ModelConfig) list option"
  parameters_cfg :: "(string \<times> json) list option"

record EngineConfig =
  providers :: "(string \<times> ProviderConfig) list"

text \<open>
  \<^verbatim>\<open>ChatRequest\<close>. The parameter bag is a pydantic \<^verbatim>\<open>BaseModel\<close>, modelled by the
  dictionary of its fields, which is what \<^verbatim>\<open>model_dump()\<close> returns.
\<close>

record ChatRequest =
  api_key :: "string option"
  model :: string
  chat_input :: string
  parameters :: "(string \<times> json) list option"
  is_stream :: "bool option"
  has_end_token :: "bool option"

subsection \<open>The provider object\<close>

text \<open>
  The three tokenizer objects \<^verbatim>\<open>_get_tokenizer\<close> chooses from:
  \<^verbatim>\<open>Anthropic().get_tokenizer()\<close>, \<^verbatim>\<open>Tokenizer.from_pretrained("Cohere/command-nightly")\<close>
  and \<^verbatim>\<open>tiktoken.get_encoding("cl100k_base")\<close>.
\<close>

datatype tokenizer = AnthropicTokenizer | CohereCommandNightly | TiktokenCl100kBase

text \<open>
  \<^verbatim>\<open>Provider.__init__(self, config)\<close> takes any object. The methods read its
  attributes \<^verbatim>\<open>models\<close>, \<^verbatim>\<open>name\<close> and \<^verbatim>\<open>provider\<close>. \<^verbatim>\<open>ProviderConfig\<close> declares
  the first two and not the third, so the third is an optional attribute of the object:
  \<open>None\<close> when the object is a plain \<^verbatim>\<open>ProviderConfig\<close>.
\<close>

record ConfigObject = ProviderConfig +
  provider :: "string option"

record Provider =
  config :: ConfigObject
  tokenizer :: tokenizer

subsection \<open>calculate_metrics\<close>

record MetricsRecord =
  latency :: real
  time_to_first_token :: real
  inter_token_latency :: real
  tokens_per_second :: real

text \<open>
  The dictionary display is evaluated entry by entry. The two subtractions cannot
  raise; \<^verbatim>\<open>sum(token_times) / len(token_times)\<close> raises \<^verbatim>\<open>ZeroDivisionError\<close> on the
  empty tuple (\<^verbatim>\<open>0 / 0\<close>), and then \<^verbatim>\<open>token_count / total_time\<close> raises it when
  \<^verbatim>\<open>total_time\<close> is zero.
\<close>

definition calculate_metrics ::
  "real \<Rightarrow> real \<Rightarrow> real \<Rightarrow> real list \<Rightarrow> int \<Rightarrow> py_error + MetricsRecord" where
  "calculate_metrics start_time end_time first_token_time token_times token_count =
     (let total_time = end_time - start_time in
      if length token_times = 0 then Inl ZeroDivisionError
      else if total_time = 0 then Inl ZeroDivisionError
      else Inr \<lparr> latency = total_time,
                 time_to_first_token = first_token_time - start_time,
                 inter_token_latency = sum_list token_times / real (length token_times),
                 tokens_per_second = real_of_int token_count / total_time \<rparr>)"

subsection \<open>calculate_usage\<close>

record UsageRecord =
  input_tokens :: int
  output_tokens :: int
  total_tokens :: int
  cost :: real

text \<open>
  \<^verbatim>\<open>self.tokenizer.encode\<close> belongs to the tokenizer libraries. It is a parameter
  \<open>encode\<close> of the model: for a tokenizer object and a text it returns the encoding (a
  sequence of token identifiers, whose \<^verbatim>\<open>len\<close> is taken) or raises.

  \<^verbatim>\<open>self.config.models[model]\<close> raises \<^verbatim>\<open>TypeError\<close> when \<^verbatim>\<open>models\<close> is \<^verbatim>\<open>None\<close>
  and \<^verbatim>\<open>KeyError\<close> when the key is missing; it is evaluated before the two encodings.
\<close>

definition calculate_usage ::
  "(tokenizer \<Rightarrow> string \<Rightarrow> py_error + nat list) \<Rightarrow> Provider \<Rightarrow> string \<Rightarrow> string \<Rightarrow> string
     \<Rightarrow> py_error + UsageRecord" where
  "calculate_usage encode self inp out model_name =
     (case models (config self) of
        None \<Rightarrow> Inl TypeError
      | Some ms \<Rightarrow>
         (case map_of ms model_name of
            None \<Rightarrow> Inl (KeyError model_name)
          | Some model_config \<Rightarrow>
             (case encode (tokenizer self) inp of
                Inl e \<Rightarrow> Inl e
              | Inr enc_in \<Rightarrow>
                 (case encode (tokenizer self) out of
                    Inl e \<Rightarrow> Inl e
                  | Inr enc_out \<Rightarrow>
                     (let input_tokens = int (length enc_in);
                          output_tokens = int (length enc_out);
                          input_cost = input_token_cost model_config * real_of_int input_tokens;
                          output_cost = output_token_cost model_config * real_of_int output_tokens
                      in Inr \<lparr> input_tokens = input_tokens,
                                 output_tokens = output_tokens,
                                 total_tokens = input_tokens + output_tokens,
                                 cost = input_cost + output_cost \<rparr>)))))"

subsection \<open>chat\<close>

text \<open>
  The only effect the claims about \<^verbatim>\<open>chat\<close> speak of is the call to the upstream
  API. The state passed through \<^verbatim>\<open>chat\<close> counts these calls. The body of
  \<^verbatim>\<open>Provider.chat\<close> is one membership test and one \<^verbatim>\<open>raise\<close>: it makes no call, so
  the counter is returned as it came. \<^verbatim>\<open>x not in None\<close> raises \<^verbatim>\<open>TypeError\<close>.
\<close>

record world =
  upstream_calls :: nat

definition chat :: "Provider \<Rightarrow> ChatRequest \<Rightarrow> world \<Rightarrow> (py_error + unit) \<times> world" where
  "chat self chat_request w =
     (case models (config self) of
        None \<Rightarrow> (Inl TypeError, w)
      | Some ms \<Rightarrow>
         if model chat_request \<notin> set (map fst ms)
         then (Inl (HTTPException 400
                 (''Model '' @ model chat_request @ '' is not supported by '' @ name (config self))), w)
         else (Inr (), w))"

subsection \<open>generate_response\<close>

text \<open>
  \<^verbatim>\<open>uuid.uuid4()\<close> and \<^verbatim>\<open>time.time()\<close> read the environment: their results are the
  first two arguments. The dictionary display is evaluated in order, so
  \<^verbatim>\<open>request.parameters.model_dump()\<close> is the last step; on \<^verbatim>\<open>None\<close> it raises
  \<^verbatim>\<open>AttributeError\<close>.
\<close>

definition generate_response ::
  "string \<Rightarrow> real \<Rightarrow> ChatRequest \<Rightarrow> string \<Rightarrow> json \<Rightarrow> json \<Rightarrow> py_error + json" where
  "generate_response uuid4 now request chat_output usage metrics =
     (case parameters request of
        None \<Rightarrow> Inl (AttributeError ''model_dump'')
      | Some ps \<Rightarrow>
          Inr (JObj [(''id'', JStr uuid4),
                     (''chat_input'', JStr (chat_input request)),
                     (''chat_output'', JStr chat_output),
                     (''timestamp'', JNum now),
                     (''model'', JStr (model request)),
                     (''usage'', usage),
                     (''metrics'', metrics),
                     (''parameters'', JObj ps)]))"

subsection \<open>_get_tokenizer\<close>

text \<open>\<^verbatim>\<open>d.get(key, default)\<close> of a dictionary.\<close>

definition dict_get :: "(string \<times> 'v) list \<Rightarrow> string \<Rightarrow> 'v \<Rightarrow> 'v" where
  "dict_get d k dflt = (case map_of d k of Some v \<Rightarrow> v | None \<Rightarrow> dflt)"

text \<open>
  The three calls that build the tokenizer objects belong to the libraries and can
  raise (no vocabulary file, no network, no key). For each call the record below holds
  the exception it raises, if any.
\<close>

record tokenizer_libs =
  anthropic_get_tokenizer :: "py_error option"
  tokenizer_from_pretrained :: "py_error option"
  tiktoken_get_encoding :: "py_error option"

text \<open>
  \<^verbatim>\<open>_get_tokenizer\<close> (an Isabelle name cannot start with an underscore). The
  dictionary display is evaluated first, so both vendor tokenizers are built on every
  call; then the arguments of \<^verbatim>\<open>get\<close>, in order: the attribute \<^verbatim>\<open>provider\<close> of the
  configuration object (\<^verbatim>\<open>AttributeError\<close> on an object that has none) and the
  default tokenizer.
\<close>

definition get_tokenizer :: "tokenizer_libs \<Rightarrow> ConfigObject \<Rightarrow> py_error + tokenizer" where
  "get_tokenizer libs cfg =
     (case anthropic_get_tokenizer libs of
        Some e \<Rightarrow> Inl e
      | None \<Rightarrow>
         (case tokenizer_from_pretrained libs of
            Some e \<Rightarrow> Inl e
          | None \<Rightarrow>
             (case provider cfg of
                None \<Rightarrow> Inl (AttributeError ''provider'')
              | Some p \<Rightarrow>
                 (case tiktoken_get_encoding libs of
                    Some e \<Rightarrow> Inl e
                  | None \<Rightarrow>
                      Inr (dict_get [(''anthropic'', AnthropicTokenizer),
                                     (''cohere'', CohereCommandNightly)]
                             p TiktokenCl100kBase)))))"

text \<open>\<^verbatim>\<open>Provider.__init__\<close>.\<close>

definition Provider_init :: "tokenizer_libs \<Rightarrow> ConfigObject \<Rightarrow> py_error + Provider" where
  "Provider_init libs cfg =
     (case get_tokenizer libs cfg of
        Inl e \<Rightarrow> Inl e
      | Inr t \<Rightarrow> Inr \<lparr> config = cfg, tokenizer = t \<rparr>)"

subsection \<open>get_end_token_string\<close>

text \<open>
  Python's \<^verbatim>\<open>str\<close> of an \<^verbatim>\<open>int\<close> and the format specification \<^verbatim>\<open>.Nf\<close> of a
  \<^verbatim>\<open>float\<close>: the value is rounded to \<open>N\<close> decimals (correctly, ties to even) and
  written with a sign when negative, at least one integer digit, a point and exactly
  \<open>N\<close> fractional digits.
\<close>

definition digit_char :: "nat \<Rightarrow> char" where
  "digit_char d = ''0123456789'' ! d"

fun str_nat :: "nat \<Rightarrow> string" where
  "str_nat n = (if n < 10 then [digit_char n] else str_nat (n div 10) @ [digit_char (n mod 10)])"

declare str_nat.simps [simp del]

definition str_int :: "int \<Rightarrow> string" where
  "str_int i = (if i < 0 then CHR ''-'' # str_nat (nat (- i)) else str_nat (nat i))"

definition round_half_even :: "real \<Rightarrow> int" where
  "round_half_even x =
     (let f = \<lfloor>x\<rfloor>; r = x - real_of_int f
      in if r < 1 / 2 then f else if 1 / 2 < r then f + 1 else if even f then f else f + 1)"

fun frac_digits :: "nat \<Rightarrow> nat \<Rightarrow> string" where
  "frac_digits 0 n = []"
| "frac_digits (Suc d) n = frac_digits d (n div 10) @ [digit_char (n mod 10)]"

definition format_f :: "nat \<Rightarrow> real \<Rightarrow> string" where
  "format_f d x =
     (let m = nat (round_half_even (\<bar>x\<bar> * 10 ^ d))
      in (if x < 0 then ''-'' else []) @ str_nat (m div 10 ^ d) @
         (if d = 0 then [] else CHR ''.'' # frac_digits d (m mod 10 ^ d)))"

definition END_TOKEN :: string where
  "END_TOKEN = ''<END_TOKEN>''"

text \<open>
  The replacement field \<^verbatim>\<open>{usage['cost']}\<close> has no format specification: it is
  \<^verbatim>\<open>str\<close> of the float (its shortest decimal representation that reads back as the
  same float), which is not a function of the real number alone. It is the parameter
  \<open>float_str\<close>.
\<close>

definition get_end_token_string :: "(real \<Rightarrow> string) \<Rightarrow> UsageRecord \<Rightarrow> MetricsRecord \<Rightarrow> string" where
  "get_end_token_string float_str usage metrics =
     END_TOKEN @ '',input_tokens='' @ str_int (input_tokens usage) @
     '',output_tokens='' @ str_int (output_tokens usage) @
     '',cost='' @ float_str (cost usage) @
     '',latency='' @ format_f 5 (latency metrics) @
     '',time_to_first_token='' @ format_f 5 (time_to_first_token metrics) @
     '',inter_token_latency='' @ format_f 5 (inter_token_latency metrics) @
     '',tokens_per_second='' @ format_f 2 (tokens_per_second metrics)"

text \<open>The shapes of the numeric fields: an integer literal, a fixed-point literal.\<close>

definition is_digit :: "char \<Rightarrow> bool" where
  "is_digit c = (c \<in> set ''0123456789'')"

definition is_digits :: "string \<Rightarrow> bool" where
  "is_digits s = (s \<noteq> [] \<and> list_all is_digit s)"

fun is_int_text :: "string \<Rightarrow> bool" where
  "is_int_text [] = False"
| "is_int_text (c # s) = (if c = CHR ''-'' then is_digits s else is_digits (c # s))"

definition is_fixed_text :: "nat \<Rightarrow> string \<Rightarrow> bool" where
  "is_fixed_text d s =
     (let a = takeWhile (\<lambda>c. c \<noteq> CHR ''.'') s;
          b = dropWhile (\<lambda>c. c \<noteq> CHR ''.'') s
      in is_int_text a \<and> b \<noteq> [] \<and> length (tl b) = d \<and> list_all is_digit (tl b))"

subsection \<open>get_models (engine/__init__.py)\<close>

text \<open>Truth values of an \<^verbatim>\<open>Optional[str]\<close> and of an \<^verbatim>\<open>Optional[Dict]\<close>.\<close>

fun truthy_str :: "string option \<Rightarrow> bool" where
  "truthy_str None = False"
| "truthy_str (Some s) = (s \<noteq> [])"

fun truthy_dict :: "(string \<times> 'v) list option \<Rightarrow> bool" where
  "truthy_dict None = False"
| "truthy_dict (Some d) = (d \<noteq> [])"

text \<open>\<^verbatim>\<open>d[k] = v\<close>: the value of an existing key is replaced, a new key goes last.\<close>

fun dict_set :: "(string \<times> 'v) list \<Rightarrow> string \<Rightarrow> 'v \<Rightarrow> (string \<times> 'v) list" where
  "dict_set [] k v = [(k, v)]"
| "dict_set ((k', v') # d) k v =
     (if k' = k then (k, v) # d else (k', v') # dict_set d k v)"

text \<open>
  The three assignments of the loop body build the entry of one provider:
  \<^verbatim>\<open>{"name": ..., "models": [...]}\<close>.
\<close>

definition provider_entry :: "ProviderConfig \<Rightarrow> json" where
  "provider_entry provider_config =
     JObj (dict_set (dict_set [] ''name'' (JStr (name provider_config)))
             ''models''
             (JList (map (\<lambda>kv. JStr (fst kv)) (case models provider_config of Some ms \<Rightarrow> ms | None \<Rightarrow> []))))"

fun get_models_loop ::
  "(string \<times> ProviderConfig) list \<Rightarrow> string option \<Rightarrow> (string \<times> json) list \<Rightarrow> (string \<times> json) list" where
  "get_models_loop [] flt all_models = all_models"
| "get_models_loop ((provider_name, provider_config) # rest) flt all_models =
     (if truthy_str flt \<and> Some provider_name \<noteq> flt then get_models_loop rest flt all_models
      else if truthy_dict (models provider_config)
      then get_models_loop rest flt (dict_set all_models provider_name (provider_entry provider_config))
      else get_models_loop rest flt all_models)"

text \<open>
  \<^verbatim>\<open>return all_models[provider] if provider else all_models\<close>: with a filter the
  subscript raises \<^verbatim>\<open>KeyError\<close> when the loop stored nothing under it.
\<close>

definition get_models :: "EngineConfig \<Rightarrow> string option \<Rightarrow> py_error + json" where
  "get_models cfg flt =
     (let all_models = get_models_loop (providers cfg) flt []
      in if truthy_str flt
         then (case map_of all_models (case flt of Some p \<Rightarrow> p | None \<Rightarrow> []) of
                 None \<Rightarrow> Inl (KeyError (case flt of Some p \<Rightarrow> p | None \<Rightarrow> []))
               | Some entry \<Rightarrow> Inr entry)
         else Inr (JObj all_models))"

subsection \<open>An example configuration\<close>

text \<open>
  The provider \<^verbatim>\<open>acme\<close> of the specification's examples: one model,
  \<^verbatim>\<open>acme-small\<close>, no configured key. \<open>char_encode\<close> is a stand-in encoder with one
  token per character; \<open>libs_ok\<close> is an environment in which the three tokenizers load.
\<close>

definition acme_small :: ModelConfig where
  "acme_small = \<lparr> mode = ''chat'', max_tokens = 4096,
                  input_token_cost = 3 / 1000, output_token_cost = 1 / 250 \<rparr>"

definition acme_config :: ConfigObject where
  "acme_config = \<lparr> id_cfg = ''acme'', name = ''Acme'', chat_cfg = True, embed = False,
                   keys = None, models = Some [(''acme-small'', acme_small)],
                   parameters_cfg = None, provider = Some ''acme'' \<rparr>"

definition acme_provider :: Provider where
  "acme_provider = \<lparr> config = acme_config, tokenizer = TiktokenCl100kBase \<rparr>"

definition acme_request :: "string \<Rightarrow> ChatRequest" where
  "acme_request m = \<lparr> api_key = None, model = m, chat_input = ''Hello'',
                       parameters = None, is_stream = Some False, has_end_token = Some False \<rparr>"

definition libs_ok :: tokenizer_libs where
  "libs_ok = \<lparr> anthropic_get_tokenizer = None, tokenizer_from_pretrained = None,
               tiktoken_get_encoding = None \<rparr>"

definition char_encode :: "tokenizer \<Rightarrow> string \<Rightarrow> py_error + nat list" where
  "char_encode t s = Inr (map of_char s)"

text \<open>
  An engine configuration with two providers: \<^verbatim>\<open>acme\<close> and a provider \<^verbatim>\<open>bare\<close>
  that has no model table. A usage record and a metrics record.
\<close>

definition engine_config :: EngineConfig where
  "engine_config = \<lparr> providers =
     [(''acme'', \<lparr> id_cfg = ''acme'', name = ''Acme'', chat_cfg = True, embed = False,
                   keys = None, models = Some [(''acme-small'', acme_small)],
                   parameters_cfg = None \<rparr>),
      (''bare'', \<lparr> id_cfg = ''bare'', name = ''Bare'', chat_cfg = True, embed = False,
                   keys = None, models = None, parameters_cfg = None \<rparr>)] \<rparr>"

definition example_usage :: UsageRecord where
  "example_usage = \<lparr> input_tokens = 5, output_tokens = 3, total_tokens = 8, cost = 27 / 1000 \<rparr>"

definition example_metrics :: MetricsRecord where
  "example_metrics = \<lparr> latency = 2, time_to_first_token = 1 / 2,
                        inter_token_latency = 1 / 64, tokens_per_second = 3 / 8 \<rparr>"

section \<open>Theorems\<close>

subsection \<open>calculate_metrics\<close>

text \<open>
  Claim C2. With at least one inter-token gap and an end time strictly after the start
  time, \<^verbatim>\<open>calculate_metrics\<close> returns the record whose latency is end minus start,
  whose time to first token is first-token time minus start, whose inter-token latency
  is the arithmetic mean of the gaps and whose tokens per second is the token count
  divided by the latency.
\<close>

theorem calculate_metrics_values:
  assumes "token_times \<noteq> []" and "start_time < end_time"
  shows "calculate_metrics start_time end_time first_token_time token_times token_count =
           Inr \<lparr> latency = end_time - start_time,
                  time_to_first_token = first_token_time - start_time,
                  inter_token_latency = sum_list token_times / real (length token_times),
                  tokens_per_second = real_of_int token_count / (end_time - start_time) \<rparr>"
  using assms by (simp add: calculate_metrics_def Let_def)

theorem calculate_metrics_values_witness:
  "calculate_metrics 10 12 (21 / 2) [1 / 2, 1, 3 / 2] 4 =
     Inr \<lparr> latency = 2, time_to_first_token = 1 / 2, inter_token_latency = 1,
            tokens_per_second = 2 \<rparr>"
proof -
  have g: "[1 / 2, 1, 3 / 2] \<noteq> ([] :: real list)" by simp
  have t: "(10 :: real) < 12" by simp
  show ?thesis
    using calculate_metrics_values [OF g t, of "21 / 2" 4] by simp
qed

text \<open>
  Claim C3, as amended. With an empty collection of inter-token gaps,
  \<^verbatim>\<open>calculate_metrics\<close> returns no value: it fails with Python's
  \<^verbatim>\<open>ZeroDivisionError\<close>, raised by \<^verbatim>\<open>sum(token_times) / len(token_times)\<close>. The code
  has no \<^verbatim>\<open>InsufficientDataError\<close>.
\<close>

theorem calculate_metrics_empty_gaps:
  "calculate_metrics start_time end_time first_token_time [] token_count = Inl ZeroDivisionError"
  by (simp add: calculate_metrics_def)

text \<open>
  The claim as stated (failure with \<^verbatim>\<open>InsufficientDataError\<close> and no other error) is
  false for a request of one second with no gap.
\<close>

theorem calculate_metrics_empty_gaps_counterexample:
  "calculate_metrics 0 1 (1 / 2) [] 1 \<noteq> Inl InsufficientDataError"
  by (simp add: calculate_metrics_def)

text \<open>
  Claim C4. When end time minus start time is zero, \<^verbatim>\<open>calculate_metrics\<close> fails with
  \<^verbatim>\<open>ZeroDivisionError\<close> (the specification's \<^verbatim>\<open>DivisionByZeroError\<close>), whatever the
  gaps are. A record is returned only when the latency is not zero and there is a gap:
  no field of a returned record is a quotient by zero.
\<close>

theorem calculate_metrics_zero_latency:
  "(end_time - start_time = 0 \<longrightarrow>
      calculate_metrics start_time end_time first_token_time token_times token_count =
        Inl ZeroDivisionError)
   \<and> (\<forall>r. calculate_metrics start_time end_time first_token_time token_times token_count = Inr r
          \<longrightarrow> end_time - start_time \<noteq> 0 \<and> token_times \<noteq> [])"
  by (simp add: calculate_metrics_def Let_def)

theorem calculate_metrics_zero_latency_witness:
  "calculate_metrics 7 7 7 [1 / 4, 1 / 2] 3 = Inl ZeroDivisionError"
  using calculate_metrics_zero_latency [of 7 7 7 "[1 / 4, 1 / 2]" 3] by simp

subsection \<open>calculate_usage\<close>

text \<open>
  Claim C1. For a model name present in the provider's model mapping, and input and
  output texts the provider's tokenizer encodes, \<^verbatim>\<open>calculate_usage\<close> returns the
  record whose token counts are the lengths of the two encodings, whose total is their
  sum and whose cost is input tokens times input token cost plus output tokens times
  output token cost of that model's configuration.
\<close>

theorem calculate_usage_record:
  assumes "models (config self) = Some ms"
    and "map_of ms model_name = Some model_config"
    and "encode (tokenizer self) inp = Inr enc_in"
    and "encode (tokenizer self) out = Inr enc_out"
  shows "calculate_usage encode self inp out model_name =
           Inr \<lparr> input_tokens = int (length enc_in),
                  output_tokens = int (length enc_out),
                  total_tokens = int (length enc_in) + int (length enc_out),
                  cost = real (length enc_in) * input_token_cost model_config
                       + real (length enc_out) * output_token_cost model_config \<rparr>"
  using assms by (simp add: calculate_usage_def Let_def mult.commute)

theorem calculate_usage_record_witness:
  "calculate_usage char_encode acme_provider ''Hello'' ''Hi!'' ''acme-small'' =
     Inr \<lparr> input_tokens = 5, output_tokens = 3, total_tokens = 8, cost = 27 / 1000 \<rparr>"
proof -
  have m: "models (config acme_provider) = Some [(''acme-small'', acme_small)]"
    by (simp add: acme_provider_def acme_config_def)
  have k: "map_of [(''acme-small'', acme_small)] ''acme-small'' = Some acme_small"
    by simp
  have i: "char_encode (tokenizer acme_provider) ''Hello'' = Inr (map of_char ''Hello'')"
    by (simp add: char_encode_def)
  have o: "char_encode (tokenizer acme_provider) ''Hi!'' = Inr (map of_char ''Hi!'')"
    by (simp add: char_encode_def)
  show ?thesis
    using calculate_usage_record [where encode = char_encode and self = acme_provider
        and inp = "''Hello''" and out = "''Hi!''", OF m k i o]
    by (simp add: acme_small_def)
qed

text \<open>The other paths of \<^verbatim>\<open>calculate_usage\<close>: every one of them is a failure.\<close>

lemma calculate_usage_missing_model:
  "models (config self) = Some ms \<Longrightarrow> map_of ms model_name = None \<Longrightarrow>
     calculate_usage encode self inp out model_name = Inl (KeyError model_name)"
  by (simp add: calculate_usage_def)

lemma calculate_usage_encode_fails:
  "models (config self) = Some ms \<Longrightarrow> map_of ms model_name = Some model_config \<Longrightarrow>
   encode (tokenizer self) inp = Inl e \<Longrightarrow>
     calculate_usage encode self inp out model_name = Inl e"
  by (simp add: calculate_usage_def)

subsection \<open>chat\<close>

text \<open>
  Claim C6. For a request whose model name is not in the provider's configured model
  mapping, \<^verbatim>\<open>chat\<close> fails with \<^verbatim>\<open>HTTPException\<close> of status 400 and the detail
  "Model ... is not supported by ..." (the code's form of the specification's
  \<^verbatim>\<open>UnsupportedModelError\<close>), and the count of upstream calls is what it was before.
\<close>

theorem chat_unsupported_model:
  assumes "models (config self) = Some ms"
    and "model chat_request \<notin> set (map fst ms)"
  shows "chat self chat_request w =
           (Inl (HTTPException 400
              (''Model '' @ model chat_request @ '' is not supported by '' @ name (config self))), w)"
  using assms by (simp add: chat_def)

theorem chat_unsupported_model_witness:
  "chat acme_provider (acme_request ''acme-large'') \<lparr> upstream_calls = 0 \<rparr> =
     (Inl (HTTPException 400 ''Model acme-large is not supported by Acme''),
      \<lparr> upstream_calls = 0 \<rparr>)"
proof -
  have m: "models (config acme_provider) = Some [(''acme-small'', acme_small)]"
    by (simp add: acme_provider_def acme_config_def)
  have n: "model (acme_request ''acme-large'') \<notin> set (map fst [(''acme-small'', acme_small)])"
    by (simp add: acme_request_def)
  show ?thesis
    using chat_unsupported_model [OF m n, of "\<lparr> upstream_calls = 0 \<rparr>"]
    by (simp add: acme_request_def acme_provider_def acme_config_def)
qed

text \<open>A configuration object whose \<^verbatim>\<open>models\<close> is \<^verbatim>\<open>None\<close> has no mapping to test.\<close>

lemma chat_models_None:
  "models (config self) = None \<Longrightarrow> chat self chat_request w = (Inl TypeError, w)"
  by (simp add: chat_def)

text \<open>
  Claim C7, as amended. For a request with no caller-supplied key to a provider with no
  configured key, \<^verbatim>\<open>Provider.chat\<close> makes no upstream call and no check of
  credentials: with a configured model mapping it returns normally when the model is in
  the mapping and fails with the \<^verbatim>\<open>HTTPException\<close> of status 400 when it is not.
\<close>

theorem chat_without_credentials:
  assumes "api_key chat_request = None" and "keys (config self) = None"
    and "models (config self) = Some ms"
  shows "chat self chat_request w =
           (if model chat_request \<in> set (map fst ms) then Inr ()
            else Inl (HTTPException 400
              (''Model '' @ model chat_request @ '' is not supported by '' @ name (config self))), w)"
  using assms by (simp add: chat_def)

theorem chat_without_credentials_witness:
  "chat acme_provider (acme_request ''acme-small'') \<lparr> upstream_calls = 3 \<rparr> =
     (Inr (), \<lparr> upstream_calls = 3 \<rparr>)"
proof -
  have a: "api_key (acme_request ''acme-small'') = None" by (simp add: acme_request_def)
  have k: "keys (config acme_provider) = None" by (simp add: acme_provider_def acme_config_def)
  have m: "models (config acme_provider) = Some [(''acme-small'', acme_small)]"
    by (simp add: acme_provider_def acme_config_def)
  show ?thesis
    using chat_without_credentials [OF a k m, of "\<lparr> upstream_calls = 3 \<rparr>"]
    by (simp add: acme_request_def)
qed

text \<open>
  The claim as stated (failure with \<^verbatim>\<open>MissingCredentialsError\<close>) is false: the
  request below has no key, the provider has none, and \<^verbatim>\<open>chat\<close> returns normally.
\<close>

theorem chat_without_credentials_counterexample:
  "api_key (acme_request ''acme-small'') = None \<and> keys (config acme_provider) = None \<and>
   chat acme_provider (acme_request ''acme-small'') \<lparr> upstream_calls = 0 \<rparr> =
     (Inr (), \<lparr> upstream_calls = 0 \<rparr>)"
  by (simp add: chat_def acme_request_def acme_provider_def acme_config_def)

subsection \<open>_get_tokenizer\<close>

text \<open>
  Claim C8. Given a provider identifier, and the three tokenizers loading,
  \<^verbatim>\<open>_get_tokenizer\<close> returns the Anthropic tokenizer for exactly \<^verbatim>\<open>anthropic\<close>, the
  Cohere tokenizer for exactly \<^verbatim>\<open>cohere\<close> and the default byte-pair encoding
  \<^verbatim>\<open>cl100k_base\<close> for every other identifier; the three are distinct.
\<close>

theorem get_tokenizer_selects:
  assumes "provider cfg = Some p"
    and "anthropic_get_tokenizer libs = None"
    and "tokenizer_from_pretrained libs = None"
    and "tiktoken_get_encoding libs = None"
  shows "get_tokenizer libs cfg =
           Inr (if p = ''anthropic'' then AnthropicTokenizer
                else if p = ''cohere'' then CohereCommandNightly
                else TiktokenCl100kBase)
         \<and> distinct [AnthropicTokenizer, CohereCommandNightly, TiktokenCl100kBase]"
  using assms by (simp add: get_tokenizer_def dict_get_def)

theorem get_tokenizer_selects_witness:
  "get_tokenizer libs_ok (acme_config \<lparr> provider := Some ''anthropic'' \<rparr>) = Inr AnthropicTokenizer \<and>
   get_tokenizer libs_ok (acme_config \<lparr> provider := Some ''cohere'' \<rparr>) = Inr CohereCommandNightly \<and>
   get_tokenizer libs_ok (acme_config \<lparr> provider := Some ''Cohere'' \<rparr>) = Inr TiktokenCl100kBase \<and>
   get_tokenizer libs_ok acme_config = Inr TiktokenCl100kBase"
proof -
  have a: "provider (acme_config \<lparr> provider := Some ''anthropic'' \<rparr>) = Some ''anthropic''" by simp
  have c: "provider (acme_config \<lparr> provider := Some ''cohere'' \<rparr>) = Some ''cohere''" by simp
  have u: "provider (acme_config \<lparr> provider := Some ''Cohere'' \<rparr>) = Some ''Cohere''" by simp
  have d: "provider acme_config = Some ''acme''" by (simp add: acme_config_def)
  have l: "anthropic_get_tokenizer libs_ok = None" "tokenizer_from_pretrained libs_ok = None"
    "tiktoken_get_encoding libs_ok = None"
    by (simp_all add: libs_ok_def)
  show ?thesis
    using get_tokenizer_selects [OF a l] get_tokenizer_selects [OF c l]
      get_tokenizer_selects [OF u l] get_tokenizer_selects [OF d l]
    by simp
qed

text \<open>
  The identifier is read from the attribute \<^verbatim>\<open>provider\<close> of the configuration
  object. On an object without it, as an instance of \<^verbatim>\<open>ProviderConfig\<close> is, the
  resolver and with it the constructor of \<^verbatim>\<open>Provider\<close> raise, also when the three
  tokenizers load. A vendor tokenizer that fails to load makes the resolver raise for
  every identifier.
\<close>

lemma get_tokenizer_no_attribute:
  "provider cfg = None \<Longrightarrow> anthropic_get_tokenizer libs = None \<Longrightarrow>
   tokenizer_from_pretrained libs = None \<Longrightarrow>
     get_tokenizer libs cfg = Inl (AttributeError ''provider'')"
  by (simp add: get_tokenizer_def)

lemma Provider_init_no_attribute:
  "provider cfg = None \<Longrightarrow> anthropic_get_tokenizer libs = None \<Longrightarrow>
   tokenizer_from_pretrained libs = None \<Longrightarrow>
     Provider_init libs cfg = Inl (AttributeError ''provider'')"
  by (simp add: Provider_init_def get_tokenizer_def)

lemma get_tokenizer_vendor_fails:
  "anthropic_get_tokenizer libs = Some e \<Longrightarrow> get_tokenizer libs cfg = Inl e"
  by (simp add: get_tokenizer_def)

lemma Provider_init_acme: "Provider_init libs_ok acme_config = Inr acme_provider"
  by (simp add: Provider_init_def get_tokenizer_def dict_get_def acme_config_def
      acme_provider_def libs_ok_def)

subsection \<open>generate_response\<close>

text \<open>
  Claim C10. For a request whose \<^verbatim>\<open>parameters\<close> is \<^verbatim>\<open>None\<close>,
  \<^verbatim>\<open>generate_response\<close> fails (\<^verbatim>\<open>AttributeError\<close>: \<^verbatim>\<open>None\<close> has no
  \<^verbatim>\<open>model_dump\<close>). For a request with a parameter bag it returns the response, and the
  seven entries before \<^verbatim>\<open>parameters\<close> are built from the other arguments alone.
\<close>

theorem generate_response_parameters:
  "(parameters request = None \<longrightarrow>
      generate_response uuid4 now request chat_output usage metrics =
        Inl (AttributeError ''model_dump''))
   \<and> (\<forall>ps. parameters request = Some ps \<longrightarrow>
        generate_response uuid4 now request chat_output usage metrics =
          Inr (JObj ([(''id'', JStr uuid4),
                      (''chat_input'', JStr (chat_input request)),
                      (''chat_output'', JStr chat_output),
                      (''timestamp'', JNum now),
                      (''model'', JStr (model request)),
                      (''usage'', usage),
                      (''metrics'', metrics)] @ [(''parameters'', JObj ps)])))"
  by (simp add: generate_response_def)

theorem generate_response_parameters_witness:
  "generate_response ''u-1'' 100 (acme_request ''acme-small'') ''Hi!'' (JObj []) (JObj []) =
     Inl (AttributeError ''model_dump'')
   \<and> generate_response ''u-1'' 100
        ((acme_request ''acme-small'') \<lparr> parameters := Some [(''temperature'', JNum 1)] \<rparr>)
        ''Hi!'' (JObj []) (JObj []) =
     Inr (JObj [(''id'', JStr ''u-1''), (''chat_input'', JStr ''Hello''),
                (''chat_output'', JStr ''Hi!''), (''timestamp'', JNum 100),
                (''model'', JStr ''acme-small''), (''usage'', JObj []), (''metrics'', JObj []),
                (''parameters'', JObj [(''temperature'', JNum 1)])])"
proof -
  have n: "parameters (acme_request ''acme-small'') = None" by (simp add: acme_request_def)
  have s: "parameters ((acme_request ''acme-small'') \<lparr> parameters := Some [(''temperature'', JNum 1)] \<rparr>)
             = Some [(''temperature'', JNum 1)]" by simp
  show ?thesis
    using generate_response_parameters [of "acme_request ''acme-small''" "''u-1''" 100 "''Hi!''" "JObj []" "JObj []"]
      generate_response_parameters [of "(acme_request ''acme-small'') \<lparr> parameters := Some [(''temperature'', JNum 1)] \<rparr>" "''u-1''" 100 "''Hi!''" "JObj []" "JObj []"]
      n s
    by (simp add: acme_request_def)
qed

subsection \<open>get_end_token_string\<close>

text \<open>The texts \<open>str_int\<close> and \<open>format_f\<close> produce have the shapes of the literals.\<close>

lemma is_digit_digit_char: "d < 10 \<Longrightarrow> is_digit (digit_char d)"
proof -
  assume "d < 10"
  then have "d < length ''0123456789''" by simp
  then have "''0123456789'' ! d \<in> set ''0123456789''" by (rule nth_mem)
  then show ?thesis by (simp only: is_digit_def digit_char_def)
qed

lemma str_nat_digits: "is_digits (str_nat n)"
proof (induction n rule: str_nat.induct)
  case (1 n)
  show ?case
  proof (cases "n < 10")
    case True
    then show ?thesis
      by (subst str_nat.simps) (simp add: is_digits_def is_digit_digit_char)
  next
    case False
    with 1 have "is_digits (str_nat (n div 10))" by simp
    moreover have "is_digit (digit_char (n mod 10))" by (simp add: is_digit_digit_char)
    ultimately show ?thesis using False
      by (subst str_nat.simps) (simp add: is_digits_def)
  qed
qed

lemma str_int_is_int_text: "is_int_text (str_int i)"
proof (cases "i < 0")
  case True
  then show ?thesis by (simp add: str_int_def str_nat_digits)
next
  case False
  obtain c s where cs: "str_nat (nat i) = c # s"
    using str_nat_digits [of "nat i"] by (cases "str_nat (nat i)") (auto simp: is_digits_def)
  have "is_digit c" using str_nat_digits [of "nat i"] cs by (simp add: is_digits_def)
  then have "c \<noteq> CHR ''-''" by (auto simp: is_digit_def)
  then show ?thesis using False cs str_nat_digits [of "nat i"] by (simp add: str_int_def)
qed

lemma frac_digits_length: "length (frac_digits d n) = d"
  by (induction d arbitrary: n) auto

lemma frac_digits_all: "list_all is_digit (frac_digits d n)"
  by (induction d arbitrary: n) (auto simp: is_digit_digit_char)

lemma is_digit_not_point: "is_digit c \<Longrightarrow> c \<noteq> CHR ''.''"
  by (auto simp: is_digit_def)

lemma takeWhile_digits_point:
  "list_all is_digit s \<Longrightarrow> takeWhile (\<lambda>c. c \<noteq> CHR ''.'') (s @ CHR ''.'' # r) = s"
  by (induction s) (auto simp: is_digit_not_point)

lemma dropWhile_digits_point:
  "list_all is_digit s \<Longrightarrow> dropWhile (\<lambda>c. c \<noteq> CHR ''.'') (s @ CHR ''.'' # r) = CHR ''.'' # r"
  by (induction s) (auto simp: is_digit_not_point)

lemma format_f_fixed: "0 < d \<Longrightarrow> is_fixed_text d (format_f d x)"
proof -
  assume d: "0 < d"
  define m where "m = nat (round_half_even (\<bar>x\<bar> * 10 ^ d))"
  define s where "s = str_nat (m div 10 ^ d)"
  define r where "r = frac_digits d (m mod 10 ^ d)"
  have s: "is_digits s" unfolding s_def by (rule str_nat_digits)
  then have sa: "list_all is_digit s" and sn: "s \<noteq> []" by (simp_all add: is_digits_def)
  have r: "length r = d" "list_all is_digit r"
    unfolding r_def by (simp_all add: frac_digits_length frac_digits_all)
  show ?thesis
  proof (cases "x < 0")
    case True
    then have f: "format_f d x = CHR ''-'' # (s @ CHR ''.'' # r)"
      using d by (simp add: format_f_def Let_def m_def s_def r_def)
    show ?thesis
      unfolding f using s sa r
      by (simp add: is_fixed_text_def takeWhile_digits_point dropWhile_digits_point)
  next
    case False
    then have f: "format_f d x = s @ CHR ''.'' # r"
      using d by (simp add: format_f_def Let_def m_def s_def r_def)
    obtain c t where ct: "s = c # t" using sn by (cases s) auto
    have "c \<noteq> CHR ''-''" using sa ct by (auto simp: is_digit_def)
    then have "is_int_text s" using s ct by simp
    then show ?thesis
      unfolding f using sa r
      by (simp add: is_fixed_text_def takeWhile_digits_point dropWhile_digits_point)
  qed
qed

lemma round_half_even_near: "\<bar>real_of_int (round_half_even x) - x\<bar> \<le> 1 / 2"
  unfolding round_half_even_def Let_def by (auto simp: abs_le_iff)

text \<open>Evaluation of the formatters on numerals.\<close>

lemma str_nat_small: "n < 10 \<Longrightarrow> str_nat n = [digit_char n]"
  by (subst str_nat.simps) simp

lemma frac_digits_numeral:
  "frac_digits (numeral k) n = frac_digits (pred_numeral k) (n div 10) @ [digit_char (n mod 10)]"
proof -
  have "numeral k = Suc (pred_numeral k)" by (rule numeral_eq_Suc)
  then show ?thesis by (simp only: frac_digits.simps)
qed

lemmas format_eval =
  format_f_def round_half_even_def Let_def str_nat_small frac_digits_numeral digit_char_def

lemma format_f_examples:
  "format_f 5 2 = ''2.00000''"
  "format_f 5 (1 / 2) = ''0.50000''"
  "format_f 5 (1 / 64) = ''0.01562''"
  "format_f 2 (3 / 8) = ''0.38''"
  "format_f 2 (1 / 8) = ''0.12''"
  "format_f 5 (- 1 / 1000000) = ''-0.00000''"
  by (simp_all add: format_eval)

text \<open>
  Claim C5. For every usage record and metrics record, \<^verbatim>\<open>get_end_token_string\<close>
  returns one string: the sentinel \<^verbatim>\<open><END_TOKEN>\<close> the class declares, followed by
  \<^verbatim>\<open>,input_tokens=\<close> and \<^verbatim>\<open>,output_tokens=\<close> with integer literals,
  \<^verbatim>\<open>,cost=\<close> with the text of the cost, \<^verbatim>\<open>,latency=\<close>,
  \<^verbatim>\<open>,time_to_first_token=\<close> and \<^verbatim>\<open>,inter_token_latency=\<close> with fixed-point
  literals of exactly five decimals, and \<^verbatim>\<open>,tokens_per_second=\<close> with a fixed-point
  literal of exactly two decimals, in this order.
\<close>

theorem get_end_token_string_shape:
  "get_end_token_string float_str usage metrics =
     ''<END_TOKEN>,input_tokens='' @ str_int (input_tokens usage) @
     '',output_tokens='' @ str_int (output_tokens usage) @
     '',cost='' @ float_str (cost usage) @
     '',latency='' @ format_f 5 (latency metrics) @
     '',time_to_first_token='' @ format_f 5 (time_to_first_token metrics) @
     '',inter_token_latency='' @ format_f 5 (inter_token_latency metrics) @
     '',tokens_per_second='' @ format_f 2 (tokens_per_second metrics)
   \<and> is_int_text (str_int (input_tokens usage))
   \<and> is_int_text (str_int (output_tokens usage))
   \<and> is_fixed_text 5 (format_f 5 (latency metrics))
   \<and> is_fixed_text 5 (format_f 5 (time_to_first_token metrics))
   \<and> is_fixed_text 5 (format_f 5 (inter_token_latency metrics))
   \<and> is_fixed_text 2 (format_f 2 (tokens_per_second metrics))"
  by (simp add: get_end_token_string_def END_TOKEN_def str_int_is_int_text format_f_fixed)

theorem get_end_token_string_shape_witness:
  "get_end_token_string (\<lambda>r. ''0.027'') example_usage example_metrics =
     ''<END_TOKEN>,input_tokens=5,output_tokens=3,cost=0.027,latency=2.00000,time_to_first_token=0.50000,inter_token_latency=0.01562,tokens_per_second=0.38''"
proof -
  have a: "str_int 5 = ''5''" "str_int 3 = ''3''"
    by (simp_all add: str_int_def str_nat_small digit_char_def)
  show ?thesis
    using get_end_token_string_shape [of "\<lambda>r. ''0.027''" example_usage example_metrics]
    by (simp add: example_usage_def example_metrics_def a format_f_examples)
qed

subsection \<open>get_models\<close>

lemma dict_set_fresh: "k \<notin> fst ` set d \<Longrightarrow> dict_set d k v = d @ [(k, v)]"
  by (induction d) auto

lemma provider_entry_eq:
  "models c = Some ms \<Longrightarrow>
     provider_entry c = JObj [(''name'', JStr (name c)), (''models'', JList (map (\<lambda>kv. JStr (fst kv)) ms))]"
  by (simp add: provider_entry_def)

lemma get_models_loop_all:
  "\<not> truthy_str flt \<Longrightarrow> distinct (map fst ps) \<Longrightarrow> fst ` set ps \<inter> fst ` set acc = {} \<Longrightarrow>
     get_models_loop ps flt acc =
       acc @ map (\<lambda>(n, c). (n, provider_entry c)) (filter (\<lambda>(n, c). truthy_dict (models c)) ps)"
proof (induction ps arbitrary: acc)
  case Nil
  then show ?case by simp
next
  case (Cons a ps)
  obtain n c where a: "a = (n, c)" by (cases a)
  from Cons.prems a have fresh: "n \<notin> fst ` set acc" by auto
  from Cons.prems a have d: "distinct (map fst ps)" and nps: "n \<notin> fst ` set ps" by auto
  show ?case
  proof (cases "truthy_dict (models c)")
    case True
    have disj: "fst ` set ps \<inter> fst ` set (acc @ [(n, provider_entry c)]) = {}"
      using Cons.prems(3) nps a by auto
    show ?thesis
      using Cons.IH [OF Cons.prems(1) d disj] True Cons.prems(1) a
      by (simp add: dict_set_fresh [OF fresh])
  next
    case False
    have disj: "fst ` set ps \<inter> fst ` set acc = {}" using Cons.prems(3) by auto
    show ?thesis
      using Cons.IH [OF Cons.prems(1) d disj] False Cons.prems(1) a by simp
  qed
qed

lemma get_models_loop_skip:
  "p \<noteq> [] \<Longrightarrow> p \<notin> fst ` set ps \<Longrightarrow> get_models_loop ps (Some p) acc = acc"
  by (induction ps arbitrary: acc) auto

lemma get_models_loop_one:
  "p \<noteq> [] \<Longrightarrow> distinct (map fst ps) \<Longrightarrow> map_of ps p = Some c \<Longrightarrow> truthy_dict (models c) \<Longrightarrow>
     get_models_loop ps (Some p) acc = dict_set acc p (provider_entry c)"
proof (induction ps arbitrary: acc)
  case Nil
  then show ?case by simp
next
  case (Cons a ps)
  obtain n c' where a: "a = (n, c')" by (cases a)
  show ?case
  proof (cases "n = p")
    case True
    with Cons.prems a have c: "c' = c" and np: "p \<notin> fst ` set ps" by auto
    show ?thesis
      using a True c Cons.prems(1,4) get_models_loop_skip [OF Cons.prems(1) np] by simp
  next
    case False
    with Cons.prems a have m: "map_of ps p = Some c" and d: "distinct (map fst ps)" by auto
    show ?thesis
      using a False Cons.IH [OF Cons.prems(1) d m Cons.prems(4)] Cons.prems(1) by auto
  qed
qed

text \<open>
  Claim C9, as amended. In a configuration whose provider names are distinct (they are
  the keys of a dictionary): without a filter (\<^verbatim>\<open>None\<close> or the empty string)
  \<^verbatim>\<open>get_models\<close> returns the mapping from each provider that has a non-empty model
  table to its display name and the list of its model identifiers, in the order of the
  configuration; with a filter that names a registered provider with a non-empty model
  table it returns that provider's entry itself (display name and model identifiers),
  not a mapping keyed by the provider.
\<close>

theorem get_models_result:
  assumes "distinct (map fst (providers cfg))"
  shows "(\<not> truthy_str flt \<longrightarrow>
            get_models cfg flt =
              Inr (JObj (map (\<lambda>(n, c). (n, provider_entry c))
                           (filter (\<lambda>(n, c). truthy_dict (models c)) (providers cfg)))))
       \<and> (\<forall>p c ms. flt = Some p \<and> p \<noteq> [] \<and> map_of (providers cfg) p = Some c \<and>
             models c = Some ms \<and> ms \<noteq> [] \<longrightarrow>
            get_models cfg flt =
              Inr (JObj [(''name'', JStr (name c)),
                         (''models'', JList (map (\<lambda>kv. JStr (fst kv)) ms))]))"
proof (intro conjI allI impI)
  assume f: "\<not> truthy_str flt"
  have "get_models_loop (providers cfg) flt [] =
          [] @ map (\<lambda>(n, c). (n, provider_entry c))
                 (filter (\<lambda>(n, c). truthy_dict (models c)) (providers cfg))"
    by (rule get_models_loop_all [OF f assms]) simp
  with f show "get_models cfg flt =
              Inr (JObj (map (\<lambda>(n, c). (n, provider_entry c))
                           (filter (\<lambda>(n, c). truthy_dict (models c)) (providers cfg))))"
    by (simp add: get_models_def)
next
  fix p c ms
  assume h: "flt = Some p \<and> p \<noteq> [] \<and> map_of (providers cfg) p = Some c \<and>
             models c = Some ms \<and> ms \<noteq> []"
  then have t: "truthy_dict (models c)" by simp
  from h have "get_models_loop (providers cfg) (Some p) [] = dict_set [] p (provider_entry c)"
    using get_models_loop_one [OF _ assms _ t] by blast
  with h show "get_models cfg flt =
              Inr (JObj [(''name'', JStr (name c)),
                         (''models'', JList (map (\<lambda>kv. JStr (fst kv)) ms))])"
    by (simp add: get_models_def provider_entry_eq)
qed

theorem get_models_result_witness:
  "get_models engine_config None =
     Inr (JObj [(''acme'', JObj [(''name'', JStr ''Acme''), (''models'', JList [JStr ''acme-small''])])])
   \<and> get_models engine_config (Some ''acme'') =
     Inr (JObj [(''name'', JStr ''Acme''), (''models'', JList [JStr ''acme-small''])])"
proof -
  have d: "distinct (map fst (providers engine_config))"
    by (simp add: engine_config_def)
  have a: "get_models engine_config None =
     Inr (JObj [(''acme'', JObj [(''name'', JStr ''Acme''), (''models'', JList [JStr ''acme-small''])])])"
    using get_models_result [OF d, of None]
    by (simp add: engine_config_def provider_entry_def)
  have b: "get_models engine_config (Some ''acme'') =
     Inr (JObj [(''name'', JStr ''Acme''), (''models'', JList [JStr ''acme-small''])])"
    using get_models_result [OF d, of "Some ''acme''"]
    by (simp add: engine_config_def)
  from a b show ?thesis by simp
qed

text \<open>
  The claim as stated is false: with the filter \<^verbatim>\<open>acme\<close> the result is not the mapping
  from \<^verbatim>\<open>acme\<close> to its entry, and with a filter that names a provider without models
  or an unregistered name there is no result (the subscript raises \<^verbatim>\<open>KeyError\<close>).
\<close>

theorem get_models_result_counterexample:
  "get_models engine_config (Some ''acme'') \<noteq>
     Inr (JObj [(''acme'', JObj [(''name'', JStr ''Acme''), (''models'', JList [JStr ''acme-small''])])])
   \<and> get_models engine_config (Some ''bare'') = Inl (KeyError ''bare'')
   \<and> get_models engine_config (Some ''nope'') = Inl (KeyError ''nope'')"
  by (simp add: get_models_def engine_config_def provider_entry_def)

lemma get_models_filter_KeyError:
  "p \<noteq> [] \<Longrightarrow> p \<notin> fst ` set (providers cfg) \<Longrightarrow> get_models cfg (Some p) = Inl (KeyError p)"
  by (simp add: get_models_def get_models_loop_skip)

end
